theory Spec2Isabelle
  imports Main
begin

section \<open>Texts\<close>

text \<open>
  A Python \<open>str\<close> is modelled as a \<^typ>\<open>string\<close>: a list of 8-bit characters, one per
  code point, so the model covers the texts whose code points are below 256. On these the
  white space of \<open>str.strip()\<close> and of the regular expression class \<open>\s\<close> is the same set
  of twelve characters, and the only characters that match an ASCII letter of a pattern
  compiled with \<open>re.IGNORECASE\<close> are its two ASCII cases.
\<close>

definition isspace :: "char \<Rightarrow> bool" where
  "isspace c \<longleftrightarrow> c \<in> set [CHR 0x09, CHR 0x0A, CHR 0x0B, CHR 0x0C, CHR 0x0D,
     CHR 0x1C, CHR 0x1D, CHR 0x1E, CHR 0x1F, CHR 0x20, CHR 0x85, CHR 0xA0]"

text \<open>\<open>s.strip()\<close>: white space removed at both ends.\<close>

definition strip :: "string \<Rightarrow> string" where
  "strip s = rev (dropWhile isspace (rev (dropWhile isspace s)))"

text \<open>\<open>sub in s\<close>: \<open>sub\<close> occurs in \<open>s\<close> as a contiguous substring.\<close>

primrec str_in :: "string \<Rightarrow> string \<Rightarrow> bool" where
  "str_in sub [] = (sub = [])"
| "str_in sub (c # cs) = (take (length sub) (c # cs) = sub \<or> str_in sub cs)"

text \<open>\<open>s.split(sep)\<close> for a separator of one character: one part more than separators.\<close>

primrec split :: "char \<Rightarrow> string \<Rightarrow> string list" where
  "split sep [] = [[]]"
| "split sep (c # cs) =
     (if c = sep then [] # split sep cs
      else (case split sep cs of [] \<Rightarrow> [[c]] | p # ps \<Rightarrow> (c # p) # ps))"

text \<open>\<open>str(n)\<close> of an integer: its decimal digits, with a minus sign when negative.\<close>

definition digito :: "nat \<Rightarrow> char" where
  "digito d = ''0123456789'' ! d"

fun str_nat :: "nat \<Rightarrow> string" where
  "str_nat n = (if n < 10 then [digito n] else str_nat (n div 10) @ [digito (n mod 10)])"

definition str_int :: "int \<Rightarrow> string" where
  "str_int i = (if i < 0 then CHR ''-'' # str_nat (nat (- i)) else str_nat (nat i))"

definition lower :: "char \<Rightarrow> char" where
  "lower c = (case map_of (zip ''ABCDEFGHIJKLMNOPQRSTUVWXYZ'' ''abcdefghijklmnopqrstuvwxyz'') c of
                None \<Rightarrow> c | Some l \<Rightarrow> l)"

section \<open>The regular expressions of the loop\<close>

text \<open>
  The two patterns of \<open>agent_loop\<close> are sequences of character classes, each taken once,
  optionally (\<open>?\<close>), any number of times (\<open>*\<close>) or at least once (\<open>+\<close>), and each of their
  groups is one such item. \<open>re_match\<close> is the backtracking matcher of Python's \<open>re\<close> on
  this fragment: a quantifier first takes as many characters as it can and gives them back
  one at a time while the rest of the pattern fails. It returns the text matched by every
  item, in order.
\<close>

datatype classe =
    Lit char             \<comment> \<open>a literal character\<close>
  | LitI char            \<comment> \<open>a literal letter under \<open>re.IGNORECASE\<close>\<close>
  | Espaco               \<comment> \<open>\<open>\s\<close>\<close>
  | Ponto                \<comment> \<open>\<open>.\<close>: any character but the newline\<close>
  | PontoTudo            \<comment> \<open>\<open>.\<close> under \<open>re.DOTALL\<close>: any character\<close>
  | LetraSublinhadoI     \<comment> \<open>\<open>[a-z_]\<close> under \<open>re.IGNORECASE\<close>\<close>

datatype quant = Um | Opcional | Estrela | Mais

fun casa :: "classe \<Rightarrow> char \<Rightarrow> bool" where
  "casa (Lit a) c = (c = a)"
| "casa (LitI a) c = (lower c = lower a)"
| "casa Espaco c = isspace c"
| "casa Ponto c = (c \<noteq> CHR 0x0A)"
| "casa PontoTudo c = True"
| "casa LetraSublinhadoI c = (lower c \<in> set ''abcdefghijklmnopqrstuvwxyz_'')"

fun re_match :: "(classe \<times> quant) list \<Rightarrow> string \<Rightarrow> string list option" where
  "re_match [] s = Some []"
| "re_match ((k, Um) # ps) [] = None"
| "re_match ((k, Um) # ps) (c # cs) =
     (if casa k c then map_option ((#) [c]) (re_match ps cs) else None)"
| "re_match ((k, Opcional) # ps) [] = map_option ((#) []) (re_match ps [])"
| "re_match ((k, Opcional) # ps) (c # cs) =
     (case (if casa k c then re_match ps cs else None) of
        Some gs \<Rightarrow> Some ([c] # gs)
      | None \<Rightarrow> map_option ((#) []) (re_match ps (c # cs)))"
| "re_match ((k, Estrela) # ps) [] = map_option ((#) []) (re_match ps [])"
| "re_match ((k, Estrela) # ps) (c # cs) =
     (case (if casa k c then re_match ((k, Estrela) # ps) cs else None) of
        Some (g # gs) \<Rightarrow> Some ((c # g) # gs)
      | _ \<Rightarrow> map_option ((#) []) (re_match ps (c # cs)))"
| "re_match ((k, Mais) # ps) [] = None"
| "re_match ((k, Mais) # ps) (c # cs) =
     (if casa k c then
        (case re_match ((k, Estrela) # ps) cs of
           Some (g # gs) \<Rightarrow> Some ((c # g) # gs)
         | _ \<Rightarrow> None)
      else None)"

text \<open>\<open>re.search\<close>: the match at the leftmost position of the text that has one.\<close>

fun re_search :: "(classe \<times> quant) list \<Rightarrow> string \<Rightarrow> string list option" where
  "re_search ps [] = re_match ps []"
| "re_search ps (c # cs) =
     (case re_match ps (c # cs) of Some gs \<Rightarrow> Some gs | None \<Rightarrow> re_search ps cs)"

text \<open>\<open>r"Answer:?\s*(.+)"\<close> with \<open>re.DOTALL | re.IGNORECASE\<close>; group 1 is item 8.\<close>

definition ANSWER_RE :: "(classe \<times> quant) list" where
  "ANSWER_RE = map (\<lambda>a. (LitI a, Um)) ''Answer'' @
     [(Lit CHR '':'', Opcional), (Espaco, Estrela), (PontoTudo, Mais)]"

text \<open>\<open>r"Action:\s*([a-z_]+):\s*(.+)"\<close> with \<open>re.IGNORECASE\<close>; the groups are items 8 and 11.\<close>

definition ACTION_RE :: "(classe \<times> quant) list" where
  "ACTION_RE = map (\<lambda>a. (LitI a, Um)) ''Action'' @
     [(Lit CHR '':'', Um), (Espaco, Estrela), (LetraSublinhadoI, Mais),
      (Lit CHR '':'', Um), (Espaco, Estrela), (Ponto, Mais)]"

section \<open>config.py\<close>

text \<open>
  \<open>numero\<close> is the integer read from the console; below 5 it is replaced by 5.
\<close>

definition MAX_ITERATIONS :: "int \<Rightarrow> int" where
  "MAX_ITERATIONS numero = (if numero \<ge> 5 then numero else 5)"

section \<open>agent.py: the records of the log\<close>

record AgentIteration =
  numero :: int
  resposta_llm :: string
  ferramenta_chamada :: "string option"
  argumento :: "string option"
  resultado_ferramenta :: "string option"

record AgentLog =
  timestamp :: string
  pais_origem :: string
  pais_destino :: string
  max_iteracoes :: int
  iteracoes_utilizadas :: int
  iteracoes :: "AgentIteration list"
  resposta_final :: string
  sucesso :: bool

section \<open>The world outside the loop\<close>

text \<open>
  An exception is a value carrying the text of \<open>str(e)\<close>. The Groq endpoint, the two HTTP
  tools and the clock are not part of the program: they are fields of the environment.
  The endpoint answers the transcript it is sent with a text, or raises. A tool answers
  its arguments with a text, or raises; its first argument is the number of tool calls
  made before in the run, so that the same arguments may be answered differently at
  different times. \<open>SYSTEM_PROMPT\<close> is the constant that \<open>main.py\<close> imports from
  \<open>config.py\<close>.
\<close>

datatype excecao = Excecao (mensagem: string)

record Message =
  role :: string
  content :: string

record ambiente =
  SYSTEM_PROMPT :: string
  llm :: "Message list \<Rightarrow> excecao + string"
  get_country_info :: "nat \<Rightarrow> string \<Rightarrow> excecao + string"
  convert_currency :: "nat \<Rightarrow> string \<Rightarrow> string \<Rightarrow> excecao + string"
  agora :: string

section \<open>agent.py: the class Agent\<close>

record Agent =
  system :: string
  messages :: "Message list"

text \<open>\<open>Agent.__init__\<close>: the system prompt, when not empty, is the first message.\<close>

definition Agent_init :: "string \<Rightarrow> Agent" where
  "Agent_init sys =
     \<lparr>system = sys,
      messages = (if sys \<noteq> [] then [\<lparr>role = ''system'', content = sys\<rparr>] else [])\<rparr>"

text \<open>
  \<open>Agent.__call__\<close>: a non-empty message is appended as a user message, the endpoint is
  called on the whole transcript (\<open>_executar\<close>), and its answer is appended as an
  assistant message. When the endpoint raises, the agent is left with the user message.
\<close>

definition Agent_call :: "ambiente \<Rightarrow> Agent \<Rightarrow> string \<Rightarrow> (excecao + string) \<times> Agent" where
  "Agent_call env self message =
     (let self1 = (if message \<noteq> []
                   then self\<lparr>messages := messages self @ [\<lparr>role = ''user'', content = message\<rparr>]\<rparr>
                   else self)
      in case llm env (messages self1) of
           Inl e \<Rightarrow> (Inl e, self1)
         | Inr resposta \<Rightarrow>
             (Inr resposta,
              self1\<lparr>messages := messages self1 @ [\<lparr>role = ''assistant'', content = resposta\<rparr>]\<rparr>))"

section \<open>agent.py: the registry of tools\<close>

datatype ferramenta =
    Unaria "string \<Rightarrow> excecao + string"
  | Binaria "string \<Rightarrow> string \<Rightarrow> excecao + string"

text \<open>The dictionary \<open>FERRAMENTAS\<close>, at the moment when \<open>k\<close> tool calls have been made.\<close>

definition FERRAMENTAS :: "ambiente \<Rightarrow> nat \<Rightarrow> string \<rightharpoonup> ferramenta" where
  "FERRAMENTAS env k =
     [''get_country_info'' \<mapsto> Unaria (get_country_info env k),
      ''convert_currency'' \<mapsto> Binaria (convert_currency env k)]"

text \<open>
  Calling a registered function on a list of positional arguments; a wrong number of
  them raises a \<open>TypeError\<close>.
\<close>

fun aplicar :: "ferramenta \<Rightarrow> string list \<Rightarrow> excecao + string" where
  "aplicar (Unaria f) [a] = f a"
| "aplicar (Binaria f) [a, b] = f a b"
| "aplicar _ _ = Inl (Excecao ''TypeError'')"

section \<open>main.py: the loop\<close>

text \<open>
  The state of a run: the local variables of \<open>agent_loop\<close>, the list of the tool calls
  made so far (name and arguments), and the log handed to \<open>_salvar_log\<close> with the base
  name of its files, once that has happened. The \<open>print\<close> calls are left out.
\<close>

record estado =
  agente :: Agent
  log :: AgentLog
  proximo_prompt :: string
  resultado_final :: string
  chamadas :: "(string \<times> string list) list"
  arquivo :: "(string \<times> AgentLog) option"

text \<open>
  Lines 112 to 128: the observation for a tool name and its argument, with the tool calls
  made for it. \<open>except Exception as e\<close> turns a raised exception into an observation.
\<close>

definition despachar :: "ambiente \<Rightarrow> nat \<Rightarrow> string \<Rightarrow> string \<Rightarrow> string \<times> (string \<times> string list) list" where
  "despachar env k nome_ferramenta arg =
     (case FERRAMENTAS env k nome_ferramenta of
        Some f \<Rightarrow>
          (let tentar = (\<lambda>args. (case aplicar f args of
                                   Inr r \<Rightarrow> r
                                 | Inl e \<Rightarrow> ''ERROR: '' @ mensagem e,
                                 [(nome_ferramenta, args)]))
           in if nome_ferramenta = ''convert_currency'' then
                (let args = map strip (split CHR '','' arg)
                 in if length args = 2 then tentar args
                    else (''ERROR: convert_currency requer 2 argumentos'', []))
              else tentar [arg])
      | None \<Rightarrow> (''ERROR: ferramenta nao encontrada'', []))"

text \<open>Lines 86 and 87: the final answer taken from a response.\<close>

definition extrair_answer :: "string \<Rightarrow> string" where
  "extrair_answer resposta =
     (case re_search ANSWER_RE resposta of
        Some answer_match \<Rightarrow> strip (answer_match ! 8)
      | None \<Rightarrow> resposta)"

text \<open>
  Lines 99 to 105: the tool name and the argument of the first match of \<open>re.findall\<close>,
  when there is one.
\<close>

definition extrair_action :: "string \<Rightarrow> (string \<times> string) option" where
  "extrair_action resposta =
     (case re_search ACTION_RE resposta of
        Some action_match \<Rightarrow> Some (strip (action_match ! 8), strip (action_match ! 11))
      | None \<Rightarrow> None)"

text \<open>Lines 61 to 66: the prompt sent at iteration \<open>i\<close>.\<close>

definition prompt_da_iteracao :: "int \<Rightarrow> int \<Rightarrow> string \<Rightarrow> string" where
  "prompt_da_iteracao max_iterations i proximo =
     (if i = max_iterations then
        proximo @ [CHR 0x0A, CHR 0x0A] @
        ''ATENCAO: Esta e sua ultima iteracao ('' @ str_int i @ ''/'' @ str_int max_iterations @ ''). '' @
        ''Finalize AGORA com Answer usando os dados ja coletados.''
      else proximo)"

text \<open>
  How one pass through the body of the \<open>for\<close> loop ends: an exception leaves
  \<open>agent_loop\<close>, \<open>break\<close> leaves the loop, and \<open>continue\<close> or the end of the body goes on
  to the next value of \<open>i\<close>.
\<close>

datatype controle = Raise excecao estado | Break estado | Continue estado

definition registrar :: "AgentIteration \<Rightarrow> estado \<Rightarrow> estado" where
  "registrar registro st = st\<lparr>log := (log st)\<lparr>iteracoes := iteracoes (log st) @ [registro]\<rparr>\<rparr>"

definition corpo :: "ambiente \<Rightarrow> int \<Rightarrow> int \<Rightarrow> estado \<Rightarrow> controle" where
  "corpo env max_iterations i st0 =
     (let st = st0\<lparr>proximo_prompt := prompt_da_iteracao max_iterations i (proximo_prompt st0)\<rparr>
      in case Agent_call env (agente st) (proximo_prompt st) of
           (Inl e, ag) \<Rightarrow> Raise e (st\<lparr>agente := ag\<rparr>)
         | (Inr resposta, ag) \<Rightarrow>
            (let st = st\<lparr>agente := ag\<rparr>;
                 registro = \<lparr>numero = i, resposta_llm = resposta, ferramenta_chamada = None,
                             argumento = None, resultado_ferramenta = None\<rparr>
             in if str_in ''Answer'' resposta then
                  Break (registrar registro
                    (st\<lparr>resultado_final := extrair_answer resposta,
                        log := (log st)\<lparr>sucesso := True\<rparr>\<rparr>))
                else
                  (case (if str_in ''PAUSE'' resposta \<and> str_in ''Action'' resposta
                         then extrair_action resposta else None) of
                     Some (nome_ferramenta, arg) \<Rightarrow>
                       (let (resultado, feitas) =
                              despachar env (length (chamadas st)) nome_ferramenta arg;
                            registro = registro\<lparr>ferramenta_chamada := Some nome_ferramenta,
                                                argumento := Some arg,
                                                resultado_ferramenta := Some resultado\<rparr>
                        in Continue (registrar registro
                             (st\<lparr>proximo_prompt := ''Observation: '' @ resultado,
                                 chamadas := chamadas st @ feitas\<rparr>)))
                   | None \<Rightarrow> Continue (registrar registro st))))"

text \<open>\<open>for i in ...\<close>: the body at each value in turn, until it raises or breaks.\<close>

fun for_loop :: "ambiente \<Rightarrow> int \<Rightarrow> int list \<Rightarrow> estado \<Rightarrow> excecao option \<times> estado" where
  "for_loop env max_iterations [] st = (None, st)"
| "for_loop env max_iterations (i # is) st =
     (case corpo env max_iterations i st of
        Raise e st' \<Rightarrow> (Some e, st')
      | Break st' \<Rightarrow> (None, st')
      | Continue st' \<Rightarrow> for_loop env max_iterations is st')"

text \<open>Lines 38 to 51: the state in which the loop starts.\<close>

definition estado_inicial :: "ambiente \<Rightarrow> string \<Rightarrow> string \<Rightarrow> int \<Rightarrow> estado" where
  "estado_inicial env origem destino max_iterations =
     \<lparr>agente = Agent_init (SYSTEM_PROMPT env),
      log = \<lparr>timestamp = agora env, pais_origem = origem, pais_destino = destino,
             max_iteracoes = max_iterations, iteracoes_utilizadas = 0, iteracoes = [],
             resposta_final = [], sucesso = False\<rparr>,
      proximo_prompt = ''Estou em '' @ origem @ '', me fale sobre '' @ destino,
      resultado_final = [],
      chamadas = [],
      arquivo = None\<rparr>"

text \<open>
  \<open>agent_loop\<close>: \<open>range(1, max_iterations + 1)\<close> is the list \<open>[1..max_iterations]\<close>. The
  result is the exception that left the function or the text it returned, with the state
  the run ended in.
\<close>

definition agent_loop :: "ambiente \<Rightarrow> string \<Rightarrow> string \<Rightarrow> int \<Rightarrow> string \<Rightarrow> (excecao + string) \<times> estado" where
  "agent_loop env origem destino max_iterations log_file =
     (case for_loop env max_iterations [1..max_iterations]
             (estado_inicial env origem destino max_iterations) of
        (Some e, st) \<Rightarrow> (Inl e, st)
      | (None, st) \<Rightarrow>
          (let lg = (log st)\<lparr>iteracoes_utilizadas := int (length (iteracoes (log st))),
                              resposta_final := resultado_final st\<rparr>
           in (Inr (resultado_final st), st\<lparr>log := lg, arquivo := Some (log_file, lg)\<rparr>)))"

section \<open>Environments for the examples\<close>

text \<open>
  An endpoint that always answers \<open>r\<close>, with tools that answer with their arguments.
\<close>

definition ambiente_fixo :: "string \<Rightarrow> ambiente" where
  "ambiente_fixo r =
     \<lparr>SYSTEM_PROMPT = ''You are a country comparison assistant.'',
      llm = (\<lambda>ms. Inr r),
      get_country_info = (\<lambda>k a. Inr (''Country: '' @ a)),
      convert_currency = (\<lambda>k a b. Inr (''1 '' @ a @ '' = 1.0000 '' @ b)),
      agora = ''2025-01-01 00:00:00''\<rparr>"

text \<open>An endpoint that answers the first call and raises at the second.\<close>

definition ambiente_falha :: ambiente where
  "ambiente_falha =
     (ambiente_fixo ''Thought: wait.'')
       \<lparr>llm := (\<lambda>ms. if length ms < 4 then Inr ''Thought: wait.''
                      else Inl (Excecao ''timeout''))\<rparr>"

section \<open>Auxiliary definitions for the statements\<close>






section \<open>Lemmas on texts and on the matcher\<close>

lemma split_nao_vazio: "split sep s \<noteq> []"
  by (induction s) (auto split: list.splits)

lemma length_split: "length (split sep s) = Suc (length (filter (\<lambda>c. c = sep) s))"
proof (induction s)
  case Nil
  show ?case by simp
next
  case (Cons c cs)
  then show ?case
    using split_nao_vazio [of sep cs] by (cases "split sep cs") auto
qed

lemma split_sem_separador: "sep \<notin> set s \<Longrightarrow> split sep s = [s]"
  by (induction s) auto

lemma split_um_separador:
  "sep \<notin> set a \<Longrightarrow> split sep (a @ sep # b) = a # split sep b"
  by (induction a) auto

lemma re_match_Um:
  "re_match ((k, Um) # ps) s =
     (case s of [] \<Rightarrow> None
      | c # cs \<Rightarrow> if casa k c then map_option ((#) [c]) (re_match ps cs) else None)"
  by (cases s) simp_all










lemma re_match_ponto_tudo_estrela: "re_match [(PontoTudo, Estrela)] s = Some [s]"
  by (induction s) simp_all

lemma re_match_ponto_tudo_mais:
  "re_match [(PontoTudo, Mais)] s = (if s = [] then None else Some [s])"
  by (cases s) (simp_all add: re_match_ponto_tudo_estrela)























section \<open>Lemmas on the body of the loop\<close>

lemma FERRAMENTAS_dom:
  "dom (FERRAMENTAS env k) = {''get_country_info'', ''convert_currency''}"
  by (auto simp: FERRAMENTAS_def split: if_splits)

lemma FERRAMENTAS_convert:
  "FERRAMENTAS env k ''convert_currency'' = Some (Binaria (convert_currency env k))"
  by (simp add: FERRAMENTAS_def)

lemma corpo_action:
  assumes "Agent_call env (agente st) (prompt_da_iteracao m i (proximo_prompt st)) = (Inr resposta, ag)"
    and "\<not> str_in ''Answer'' resposta"
    and "str_in ''PAUSE'' resposta" and "str_in ''Action'' resposta"
    and "extrair_action resposta = Some (nome, arg)"
    and "despachar env (length (chamadas st)) nome arg = (res, feitas)"
  shows "corpo env m i st =
     Continue (registrar
       \<lparr>numero = i, resposta_llm = resposta, ferramenta_chamada = Some nome,
        argumento = Some arg, resultado_ferramenta = Some res\<rparr>
       (st\<lparr>agente := ag, proximo_prompt := ''Observation: '' @ res,
           chamadas := chamadas st @ feitas\<rparr>))"
  using assms by (simp add: corpo_def registrar_def)

lemma prompt_nao_vazio: "p \<noteq> [] \<Longrightarrow> prompt_da_iteracao m i p \<noteq> []"
  by (simp add: prompt_da_iteracao_def)

lemma Agent_call_Inr:
  assumes "Agent_call env a p = (Inr r, ag)"
  shows "llm env (messages a @ (if p \<noteq> [] then [\<lparr>role = ''user'', content = p\<rparr>] else [])) = Inr r \<and>
    ag = a\<lparr>messages := messages a @ (if p \<noteq> [] then [\<lparr>role = ''user'', content = p\<rparr>] else []) @
            [\<lparr>role = ''assistant'', content = r\<rparr>]\<rparr>"
  using assms by (auto simp: Agent_call_def Let_def split: sum.splits if_splits)



lemma corpo_answer:
  assumes "Agent_call env (agente st) (prompt_da_iteracao m i (proximo_prompt st)) = (Inr resposta, ag)"
    and "str_in ''Answer'' resposta"
  shows "corpo env m i st =
     Break (registrar
       \<lparr>numero = i, resposta_llm = resposta, ferramenta_chamada = None,
        argumento = None, resultado_ferramenta = None\<rparr>
       (st\<lparr>agente := ag, proximo_prompt := prompt_da_iteracao m i (proximo_prompt st),
           resultado_final := extrair_answer resposta,
           log := (log st)\<lparr>sucesso := True\<rparr>\<rparr>))"
  using assms by (simp add: corpo_def registrar_def)

lemma corpo_Raise:
  assumes "corpo env m i st = Raise e st'"
  shows "Agent_call env (agente st) (prompt_da_iteracao m i (proximo_prompt st)) = (Inl e, agente st') \<and>
    log st' = log st \<and> arquivo st' = arquivo st \<and> resultado_final st' = resultado_final st \<and>
    chamadas st' = chamadas st"
  using assms
  by (auto simp: corpo_def Let_def registrar_def split: prod.splits sum.splits if_splits option.splits)

lemma corpo_Break:
  assumes "corpo env m i st = Break st'"
  shows "\<exists>resposta. Agent_call env (agente st) (prompt_da_iteracao m i (proximo_prompt st)) =
       (Inr resposta, agente st') \<and> str_in ''Answer'' resposta \<and>
     log st' = (log st)\<lparr>sucesso := True, iteracoes := iteracoes (log st) @
       [\<lparr>numero = i, resposta_llm = resposta, ferramenta_chamada = None,
         argumento = None, resultado_ferramenta = None\<rparr>]\<rparr> \<and>
     arquivo st' = arquivo st \<and> resultado_final st' = extrair_answer resposta \<and>
     chamadas st' = chamadas st"
  using assms
  by (auto simp: corpo_def Let_def registrar_def split: prod.splits sum.splits if_splits option.splits)

lemma corpo_Continue:
  assumes "corpo env m i st = Continue st'"
  shows "\<exists>resposta reg. Agent_call env (agente st) (prompt_da_iteracao m i (proximo_prompt st)) =
       (Inr resposta, agente st') \<and> \<not> str_in ''Answer'' resposta \<and>
     numero reg = i \<and> resposta_llm reg = resposta \<and>
     iteracoes (log st') = iteracoes (log st) @ [reg] \<and>
     sucesso (log st') = sucesso (log st) \<and>
     iteracoes_utilizadas (log st') = iteracoes_utilizadas (log st) \<and>
     resposta_final (log st') = resposta_final (log st) \<and>
     arquivo st' = arquivo st \<and> resultado_final st' = resultado_final st \<and>
     (proximo_prompt st \<noteq> [] \<longrightarrow> proximo_prompt st' \<noteq> [])"
  using assms
  by (auto simp: corpo_def Let_def registrar_def prompt_nao_vazio
      split: prod.splits sum.splits if_splits option.splits)

section \<open>Lemmas on the loop\<close>




text \<open>What a completed pass through the body adds to the log and to the transcript.\<close>

lemma corpo_completo:
  assumes "corpo env m i st = Break st' \<or> corpo env m i st = Continue st'"
  shows "\<exists>r reg. iteracoes (log st') = iteracoes (log st) @ [reg] \<and> numero reg = i \<and>
      resposta_llm reg = r \<and>
      messages (agente st') = messages (agente st) @
        (if prompt_da_iteracao m i (proximo_prompt st) \<noteq> []
         then [\<lparr>role = ''user'', content = prompt_da_iteracao m i (proximo_prompt st)\<rparr>] else []) @
        [\<lparr>role = ''assistant'', content = r\<rparr>] \<and>
      iteracoes_utilizadas (log st') = iteracoes_utilizadas (log st) \<and>
      resposta_final (log st') = resposta_final (log st) \<and> arquivo st' = arquivo st"
proof -
  from assms show ?thesis
  proof
    assume "corpo env m i st = Break st'"
    from corpo_Break [OF this] obtain r where
      a: "Agent_call env (agente st) (prompt_da_iteracao m i (proximo_prompt st)) = (Inr r, agente st')"
      and l: "log st' = (log st)\<lparr>sucesso := True, iteracoes := iteracoes (log st) @
         [\<lparr>numero = i, resposta_llm = r, ferramenta_chamada = None,
           argumento = None, resultado_ferramenta = None\<rparr>]\<rparr>"
      and f: "arquivo st' = arquivo st"
      by blast
    from Agent_call_Inr [OF a] have "messages (agente st') = messages (agente st) @
        (if prompt_da_iteracao m i (proximo_prompt st) \<noteq> []
         then [\<lparr>role = ''user'', content = prompt_da_iteracao m i (proximo_prompt st)\<rparr>] else []) @
        [\<lparr>role = ''assistant'', content = r\<rparr>]"
      by (cases "prompt_da_iteracao m i (proximo_prompt st) = []") simp_all
    with l f show ?thesis by simp
  next
    assume "corpo env m i st = Continue st'"
    from corpo_Continue [OF this] obtain r reg where
      a: "Agent_call env (agente st) (prompt_da_iteracao m i (proximo_prompt st)) = (Inr r, agente st')"
      and l: "numero reg = i" "resposta_llm reg = r"
        "iteracoes (log st') = iteracoes (log st) @ [reg]"
        "iteracoes_utilizadas (log st') = iteracoes_utilizadas (log st)"
        "resposta_final (log st') = resposta_final (log st)"
        "arquivo st' = arquivo st"
      by blast
    from Agent_call_Inr [OF a] have "messages (agente st') = messages (agente st) @
        (if prompt_da_iteracao m i (proximo_prompt st) \<noteq> []
         then [\<lparr>role = ''user'', content = prompt_da_iteracao m i (proximo_prompt st)\<rparr>] else []) @
        [\<lparr>role = ''assistant'', content = r\<rparr>]"
      by (cases "prompt_da_iteracao m i (proximo_prompt st) = []") simp_all
    with l show ?thesis by simp
  qed
qed



lemma for_loop_finalizacao:
  "for_loop env m is st = (x, st') \<Longrightarrow>
     iteracoes_utilizadas (log st') = iteracoes_utilizadas (log st) \<and>
     resposta_final (log st') = resposta_final (log st) \<and> arquivo st' = arquivo st"
proof (induction "is" arbitrary: st)
  case Nil
  then show ?case by simp
next
  case (Cons i "is")
  show ?case
  proof (cases "corpo env m i st")
    case (Raise e st1)
    with Cons.prems have "st1 = st'" by simp
    with Raise corpo_Raise [of env m i st e st'] show ?thesis by simp
  next
    case (Break st1)
    with Cons.prems have "st1 = st'" by simp
    with Break corpo_completo [of env m i st st'] show ?thesis by auto
  next
    case (Continue st1)
    with Cons.prems have "for_loop env m is st1 = (x, st')" by simp
    from Cons.IH [OF this] Continue corpo_completo [of env m i st st1] show ?thesis by auto
  qed
qed

lemma estado_inicial_campos:
  "iteracoes (log (estado_inicial env origem destino m)) = []"
  "iteracoes_utilizadas (log (estado_inicial env origem destino m)) = 0"
  "resposta_final (log (estado_inicial env origem destino m)) = []"
  "\<not> sucesso (log (estado_inicial env origem destino m))"
  "resultado_final (estado_inicial env origem destino m) = []"
  "arquivo (estado_inicial env origem destino m) = None"
  "proximo_prompt (estado_inicial env origem destino m) \<noteq> []"
  "messages (agente (estado_inicial env origem destino m)) =
     (if SYSTEM_PROMPT env \<noteq> [] then [\<lparr>role = ''system'', content = SYSTEM_PROMPT env\<rparr>] else [])"
  by (simp_all add: estado_inicial_def Agent_init_def)


lemma agent_loop_Some:
  assumes "for_loop env m [1..m] (estado_inicial env origem destino m) = (Some e, st)"
  shows "agent_loop env origem destino m log_file = (Inl e, st)"
  using assms by (simp add: agent_loop_def)



lemma for_loop_Some_sucesso:
  "for_loop env m is st = (Some e, st') \<Longrightarrow> sucesso (log st') = sucesso (log st)"
proof (induction "is" arbitrary: st)
  case Nil
  then show ?case by simp
next
  case (Cons i "is")
  show ?case
  proof (cases "corpo env m i st")
    case (Raise e1 st1)
    with Cons.prems have "st1 = st'" by simp
    with Raise corpo_Raise [of env m i st e1 st'] show ?thesis by simp
  next
    case (Break st1)
    with Cons.prems show ?thesis by simp
  next
    case (Continue st1)
    with Cons.prems have "for_loop env m is st1 = (Some e, st')" by simp
    from Cons.IH [OF this] corpo_Continue [OF Continue] show ?thesis by auto
  qed
qed

section \<open>The iteration budget of config.py\<close>

text \<open>
  C10. The budget that \<open>config.py\<close> hands to the loop is the integer read when it is at
  least 5 and is 5 otherwise, so it is never below 5.
\<close>

theorem MAX_ITERATIONS_pelo_menos_5:
  "(5 \<le> n \<longrightarrow> MAX_ITERATIONS n = n) \<and> (n < 5 \<longrightarrow> MAX_ITERATIONS n = 5) \<and> 5 \<le> MAX_ITERATIONS n"
  by (simp add: MAX_ITERATIONS_def)

theorem MAX_ITERATIONS_pelo_menos_5_witness:
  "MAX_ITERATIONS 8 = 8 \<and> MAX_ITERATIONS 2 = 5 \<and> MAX_ITERATIONS (- 3) = 5 \<and> 5 \<le> MAX_ITERATIONS 8"
  using MAX_ITERATIONS_pelo_menos_5 [of 8] MAX_ITERATIONS_pelo_menos_5 [of 2]
    MAX_ITERATIONS_pelo_menos_5 [of "- 3"]
  by simp

section \<open>The dispatcher\<close>

text \<open>
  C5. When the tool name extracted from an Action turn is not a key of \<open>FERRAMENTAS\<close>,
  the observation is the text \<open>ERROR: ferramenta nao encontrada\<close>, no tool is called,
  and the iteration ends normally: the record of the turn is appended with that result
  and the next prompt is the observation.
\<close>

theorem ferramenta_nao_encontrada:
  assumes "nome \<notin> dom (FERRAMENTAS env (length (chamadas st)))"
    and "Agent_call env (agente st) (prompt_da_iteracao m i (proximo_prompt st)) = (Inr resposta, ag)"
    and "\<not> str_in ''Answer'' resposta"
    and "str_in ''PAUSE'' resposta" and "str_in ''Action'' resposta"
    and "extrair_action resposta = Some (nome, arg)"
  shows "despachar env (length (chamadas st)) nome arg = (''ERROR: ferramenta nao encontrada'', []) \<and>
    (\<exists>st'. corpo env m i st = Continue st' \<and>
       proximo_prompt st' = ''Observation: ERROR: ferramenta nao encontrada'' \<and>
       chamadas st' = chamadas st \<and>
       iteracoes (log st') = iteracoes (log st) @
         [\<lparr>numero = i, resposta_llm = resposta, ferramenta_chamada = Some nome,
           argumento = Some arg,
           resultado_ferramenta = Some ''ERROR: ferramenta nao encontrada''\<rparr>])"
proof -
  from assms(1) have nada: "FERRAMENTAS env (length (chamadas st)) nome = None"
    by (simp add: domIff)
  then have d: "despachar env (length (chamadas st)) nome arg = (''ERROR: ferramenta nao encontrada'', [])"
    by (simp add: despachar_def)
  show ?thesis
    using corpo_action [OF assms(2-6) d] d by (simp add: registrar_def)
qed

theorem ferramenta_nao_encontrada_witness:
  "(let env = ambiente_fixo (''Action: lookup_tool: Brazil'' @ [CHR 0x0A] @ ''PAUSE'');
        st = estado_inicial env ''Brasil'' ''Japao'' 5
    in despachar env 0 ''lookup_tool'' ''Brazil'' = (''ERROR: ferramenta nao encontrada'', []) \<and>
       (\<exists>st'. corpo env 5 1 st = Continue st' \<and>
         proximo_prompt st' = ''Observation: ERROR: ferramenta nao encontrada'' \<and>
         chamadas st' = []))"
proof -
  define env where "env = ambiente_fixo (''Action: lookup_tool: Brazil'' @ [CHR 0x0A] @ ''PAUSE'')"
  define st where "st = estado_inicial env ''Brasil'' ''Japao'' 5"
  have c: "chamadas st = []" by (simp add: st_def estado_inicial_def)
  have 1: "''lookup_tool'' \<notin> dom (FERRAMENTAS env (length (chamadas st)))"
    by (simp add: FERRAMENTAS_dom)
  have 2: "Agent_call env (agente st) (prompt_da_iteracao 5 1 (proximo_prompt st)) =
      (Inr (''Action: lookup_tool: Brazil'' @ [CHR 0x0A] @ ''PAUSE''),
       snd (Agent_call env (agente st) (prompt_da_iteracao 5 1 (proximo_prompt st))))"
    by (simp add: Agent_call_def env_def ambiente_fixo_def Let_def)
  have 3: "\<not> str_in ''Answer'' (''Action: lookup_tool: Brazil'' @ [CHR 0x0A] @ ''PAUSE'')" by simp
  have 4: "str_in ''PAUSE'' (''Action: lookup_tool: Brazil'' @ [CHR 0x0A] @ ''PAUSE'')" by simp
  have 5: "str_in ''Action'' (''Action: lookup_tool: Brazil'' @ [CHR 0x0A] @ ''PAUSE'')" by simp
  have 6: "extrair_action (''Action: lookup_tool: Brazil'' @ [CHR 0x0A] @ ''PAUSE'') = Some (''lookup_tool'', ''Brazil'')"
    by code_simp
  show ?thesis
    using ferramenta_nao_encontrada [OF 1 2 3 4 5 6] c
    unfolding Let_def env_def [symmetric] st_def [symmetric] by auto
qed

text \<open>
  C3, as the code has it. For the tool \<open>convert_currency\<close> the argument is split at
  every comma and the parts are trimmed. With no comma or more than one, the observation
  is the fixed text on the two arguments and no tool is called. With exactly one comma
  the tool is called on the two trimmed parts, whatever they are.
\<close>

theorem convert_currency_dois_argumentos:
  "(length (filter (\<lambda>c. c = CHR '','') arg) \<noteq> 1 \<longrightarrow>
      despachar env k ''convert_currency'' arg =
        (''ERROR: convert_currency requer 2 argumentos'', [])) \<and>
   (CHR '','' \<notin> set a \<and> CHR '','' \<notin> set b \<longrightarrow>
      despachar env k ''convert_currency'' (a @ '','' @ b) =
        (case convert_currency env k (strip a) (strip b) of
           Inr r \<Rightarrow> r | Inl e \<Rightarrow> ''ERROR: '' @ mensagem e,
         [(''convert_currency'', [strip a, strip b])]))"
  by (simp add: despachar_def FERRAMENTAS_convert length_split split_um_separador
      split_sem_separador Let_def)

text \<open>An argument with no comma, one with two commas, and one with one comma.\<close>

theorem convert_currency_dois_argumentos_witness:
  "despachar (ambiente_fixo []) 0 ''convert_currency'' ''USD'' =
     (''ERROR: convert_currency requer 2 argumentos'', []) \<and>
   despachar (ambiente_fixo []) 0 ''convert_currency'' ''USD, BRL, EUR'' =
     (''ERROR: convert_currency requer 2 argumentos'', []) \<and>
   despachar (ambiente_fixo []) 0 ''convert_currency'' ''USD, BRL'' =
     (''1 USD = 1.0000 BRL'', [(''convert_currency'', [''USD'', ''BRL''])])"
proof -
  have s: "strip ''USD'' = ''USD''" "strip '' BRL'' = ''BRL''" by code_simp+
  show ?thesis
  using convert_currency_dois_argumentos [of "''USD''" "ambiente_fixo []" 0 "[]" "[]"]
    convert_currency_dois_argumentos [of "''USD, BRL, EUR''" "ambiente_fixo []" 0 "[]" "[]"]
    convert_currency_dois_argumentos [of "[]" "ambiente_fixo []" 0 "''USD''" "'' BRL''"]
  by (simp add: ambiente_fixo_def s)
qed

text \<open>
  C3 as stated fails on an empty part: for the argument \<open>USD,\<close> the split gives two
  parts, the second empty, and the tool is called on them.
\<close>

theorem convert_currency_parte_vazia_counterexample:
  "despachar (ambiente_fixo []) 0 ''convert_currency'' ''USD,'' =
     (''1 USD = 1.0000 '', [(''convert_currency'', [''USD'', ''''])])"
  by code_simp

section \<open>The classification of a turn\<close>

text \<open>
  C1, as the code has it. When the response of the endpoint contains the text
  \<open>Answer\<close>, in this exact case, the iteration ends the loop: the final answer is
  taken from the response, the run is marked successful, the record of the turn is
  appended without tool fields, and no tool is called, whatever else the response
  contains.
\<close>

theorem answer_tem_prioridade:
  assumes "Agent_call env (agente st) (prompt_da_iteracao m i (proximo_prompt st)) = (Inr resposta, ag)"
    and "str_in ''Answer'' resposta"
  shows "\<exists>st'. corpo env m i st = Break st' \<and> for_loop env m (i # is) st = (None, st') \<and>
      sucesso (log st') \<and> resultado_final st' = extrair_answer resposta \<and>
      iteracoes (log st') = iteracoes (log st) @
        [\<lparr>numero = i, resposta_llm = resposta, ferramenta_chamada = None,
          argumento = None, resultado_ferramenta = None\<rparr>] \<and>
      chamadas st' = chamadas st"
  using corpo_answer [OF assms] by (simp add: registrar_def)

text \<open>A response with an Action line, a PAUSE and an Answer: the Answer wins.\<close>

theorem answer_tem_prioridade_witness:
  "(let r = ''Action: get_country_info: Brazil'' @ [CHR 0x0A] @ ''PAUSE'' @ [CHR 0x0A] @ ''Answer: 42'';
        env = ambiente_fixo r; st = estado_inicial env ''Brasil'' ''Japao'' 5
    in str_in ''PAUSE'' r \<and> str_in ''Action'' r \<and>
       (\<exists>st'. for_loop env 5 [1, 2, 3, 4, 5] st = (None, st') \<and> sucesso (log st') \<and>
          resultado_final st' = ''42'' \<and> length (iteracoes (log st')) = 1 \<and> chamadas st' = []))"
proof -
  define r where "r = ''Action: get_country_info: Brazil'' @ [CHR 0x0A] @ ''PAUSE'' @ [CHR 0x0A] @ ''Answer: 42''"
  define env where "env = ambiente_fixo r"
  define st where "st = estado_inicial env ''Brasil'' ''Japao'' 5"
  have 1: "Agent_call env (agente st) (prompt_da_iteracao 5 1 (proximo_prompt st)) =
      (Inr r, snd (Agent_call env (agente st) (prompt_da_iteracao 5 1 (proximo_prompt st))))"
    by (simp add: Agent_call_def env_def ambiente_fixo_def Let_def)
  have 2: "str_in ''Answer'' r" unfolding r_def by simp
  have 3: "str_in ''PAUSE'' r" "str_in ''Action'' r" unfolding r_def by simp_all
  have 4: "extrair_answer r = ''42''" unfolding r_def by code_simp
  have 5: "chamadas st = []" "iteracoes (log st) = []" by (simp_all add: st_def estado_inicial_def)
  show ?thesis
    using answer_tem_prioridade [OF 1 2, of "[2, 3, 4, 5]"] 3 4 5
    unfolding Let_def r_def [symmetric] env_def [symmetric] st_def [symmetric] by auto
qed

text \<open>
  C1 as stated fails for a marker in another case: a response with \<open>answer\<close> in lower
  case is not an Answer turn, and a run of two iterations on it ends without success.
\<close>

theorem answer_minusculo_counterexample:
  "str_in (map lower ''Answer'') (map lower ''the answer is 42'') \<and>
   fst (agent_loop (ambiente_fixo ''the answer is 42'') ''Brasil'' ''Japao'' 2 ''log'') = Inr [] \<and>
   \<not> sucesso (log (snd (agent_loop (ambiente_fixo ''the answer is 42'') ''Brasil'' ''Japao'' 2 ''log''))) \<and>
   length (iteracoes (log (snd (agent_loop (ambiente_fixo ''the answer is 42'') ''Brasil'' ''Japao'' 2 ''log'')))) = 2"
  by code_simp







section \<open>The run as a whole\<close>







text \<open>
  C9. An exception raised by the endpoint at an iteration is not caught: the loop ends at
  once with it, no record is appended for that iteration and no later iteration runs. When
  the loop ends with an exception, \<open>agent_loop\<close> ends with it, no log is handed to
  \<open>_salvar_log\<close>, and the fields \<open>iteracoes_utilizadas\<close>, \<open>resposta_final\<close> and
  \<open>sucesso\<close> of the log still have their initial values.
\<close>

theorem falha_do_modelo_propaga:
  "(Agent_call env (agente st) (prompt_da_iteracao m i (proximo_prompt st)) = (Inl e, ag) \<longrightarrow>
      for_loop env m (i # is) st =
        (Some e, st\<lparr>proximo_prompt := prompt_da_iteracao m i (proximo_prompt st), agente := ag\<rparr>)) \<and>
   (for_loop env m [1..m] (estado_inicial env origem destino m) = (Some e, st') \<longrightarrow>
      agent_loop env origem destino m log_file = (Inl e, st') \<and>
      arquivo st' = None \<and> iteracoes_utilizadas (log st') = 0 \<and>
      resposta_final (log st') = [] \<and> \<not> sucesso (log st'))"
proof -
  have a: "for_loop env m (i # is) st =
      (Some e, st\<lparr>proximo_prompt := prompt_da_iteracao m i (proximo_prompt st), agente := ag\<rparr>)"
    if "Agent_call env (agente st) (prompt_da_iteracao m i (proximo_prompt st)) = (Inl e, ag)"
  proof -
    from that have "corpo env m i st =
        Raise e (st\<lparr>proximo_prompt := prompt_da_iteracao m i (proximo_prompt st), agente := ag\<rparr>)"
      by (simp add: corpo_def)
    then show ?thesis by simp
  qed
  have b: "agent_loop env origem destino m log_file = (Inl e, st') \<and>
      arquivo st' = None \<and> iteracoes_utilizadas (log st') = 0 \<and>
      resposta_final (log st') = [] \<and> \<not> sucesso (log st')"
    if f: "for_loop env m [1..m] (estado_inicial env origem destino m) = (Some e, st')"
  proof -
    from for_loop_finalizacao [OF f] for_loop_Some_sucesso [OF f]
    have "arquivo st' = None" "iteracoes_utilizadas (log st') = 0"
      "resposta_final (log st') = []" "\<not> sucesso (log st')"
      by (simp_all add: estado_inicial_campos)
    with agent_loop_Some [OF f] show ?thesis by simp
  qed
  from a b show ?thesis by blast
qed

text \<open>
  An endpoint that raises at its second call: the loop from the state after the first
  iteration, and the whole run.
\<close>

theorem falha_do_modelo_propaga_witness:
  "fst (for_loop ambiente_falha 5 [2, 3, 4, 5]
     (case corpo ambiente_falha 5 1 (estado_inicial ambiente_falha ''Brasil'' ''Japao'' 5) of
        Continue s \<Rightarrow> s | Break s \<Rightarrow> s | Raise e s \<Rightarrow> s)) = Some (Excecao ''timeout'') \<and>
   fst (agent_loop ambiente_falha ''Brasil'' ''Japao'' 5 ''log'') = Inl (Excecao ''timeout'') \<and>
   arquivo (snd (agent_loop ambiente_falha ''Brasil'' ''Japao'' 5 ''log'')) = None \<and>
   iteracoes_utilizadas (log (snd (agent_loop ambiente_falha ''Brasil'' ''Japao'' 5 ''log''))) = 0 \<and>
   resposta_final (log (snd (agent_loop ambiente_falha ''Brasil'' ''Japao'' 5 ''log''))) = [] \<and>
   length (iteracoes (log (snd (agent_loop ambiente_falha ''Brasil'' ''Japao'' 5 ''log'')))) = 1"
proof -
  define st0 where "st0 = estado_inicial ambiente_falha ''Brasil'' ''Japao'' 5"
  define st1 where "st1 = (case corpo ambiente_falha 5 1 st0 of
        Continue s \<Rightarrow> s | Break s \<Rightarrow> s | Raise e s \<Rightarrow> s)"
  define L where "L = for_loop ambiente_falha 5 [1..5] st0"
  define C where "C = Agent_call ambiente_falha (agente st1) (prompt_da_iteracao 5 2 (proximo_prompt st1))"
  have "fst C = Inl (Excecao ''timeout'')" unfolding C_def st1_def st0_def by code_simp
  then have c: "Agent_call ambiente_falha (agente st1) (prompt_da_iteracao 5 2 (proximo_prompt st1)) =
      (Inl (Excecao ''timeout''), snd C)"
    unfolding C_def by (metis prod.collapse)
  have 1: "fst L = Some (Excecao ''timeout'')" unfolding L_def st0_def by code_simp
  then have f: "for_loop ambiente_falha 5 [1..5] (estado_inicial ambiente_falha ''Brasil'' ''Japao'' 5) =
      (Some (Excecao ''timeout''), snd L)"
    unfolding L_def st0_def by (metis prod.collapse)
  have 2: "length (iteracoes (log (snd L))) = 1" unfolding L_def st0_def by code_simp
  from falha_do_modelo_propaga [of ambiente_falha st1 5 2 "Excecao ''timeout''" "snd C" "[3, 4, 5]"] c
  have a: "fst (for_loop ambiente_falha 5 [2, 3, 4, 5] st1) = Some (Excecao ''timeout'')"
    by simp
  from falha_do_modelo_propaga [of ambiente_falha st0 5 1 "Excecao ''timeout''" "agente st0" "[]"
      "''Brasil''" "''Japao''" "snd L" "''log''"] f
  have "agent_loop ambiente_falha ''Brasil'' ''Japao'' 5 ''log'' = (Inl (Excecao ''timeout''), snd L) \<and>
      arquivo (snd L) = None \<and> iteracoes_utilizadas (log (snd L)) = 0 \<and>
      resposta_final (log (snd L)) = [] \<and> \<not> sucesso (log (snd L))"
    by blast
  with 2 a show ?thesis unfolding st1_def st0_def by simp
qed

end
